theory Spec2Isabelle
  imports Main
begin

section \<open>Python string operations used by the parser\<close>

text \<open>
  Strings are lists of 8-bit characters read as the code points 0..255 of a Python
  \<open>str\<close>. \<open>is_space\<close> is \<open>str.isspace\<close> on that range; it is what \<open>strip\<close>,
  \<open>lstrip\<close>, \<open>split()\<close> and the regular expression class \<open>\s\<close> test.
\<close>

definition is_space :: "char \<Rightarrow> bool" where
  "is_space c = (c \<in> set [CHR 0x09, CHR 0x0A, CHR 0x0B, CHR 0x0C, CHR 0x0D,
                           CHR 0x1C, CHR 0x1D, CHR 0x1E, CHR 0x1F, CHR 0x20,
                           CHR 0x85, CHR 0xA0])"

definition lstrip :: "string \<Rightarrow> string" where
  "lstrip s = dropWhile is_space s"

definition rstrip :: "string \<Rightarrow> string" where
  "rstrip s = rev (dropWhile is_space (rev s))"

definition strip :: "string \<Rightarrow> string" where
  "strip s = rstrip (lstrip s)"

text \<open>\<open>s.startswith(p)\<close>, \<open>s.endswith(p)\<close> and \<open>p in s\<close>.\<close>

fun starts_with :: "string \<Rightarrow> string \<Rightarrow> bool" where
  "starts_with s [] = True"
| "starts_with [] (p # ps) = False"
| "starts_with (c # cs) (p # ps) = (c = p \<and> starts_with cs ps)"

definition ends_with :: "string \<Rightarrow> string \<Rightarrow> bool" where
  "ends_with s p = starts_with (rev s) (rev p)"

fun contains :: "string \<Rightarrow> string \<Rightarrow> bool" where
  "contains [] p = (p = [])"
| "contains (c # cs) p = (starts_with (c # cs) p \<or> contains cs p)"

text \<open>\<open>s.count(c)\<close> for a one-character \<open>c\<close>.\<close>

definition count_char :: "char \<Rightarrow> string \<Rightarrow> nat" where
  "count_char c s = length (filter (\<lambda>x. x = c) s)"

text \<open>\<open>s.split()\<close>: the maximal runs of non-whitespace characters.\<close>

fun split_ws_from :: "string \<Rightarrow> string \<Rightarrow> string list" where
  "split_ws_from cur [] = (if cur = [] then [] else [cur])"
| "split_ws_from cur (c # cs) =
     (if is_space c then (if cur = [] then split_ws_from [] cs else cur # split_ws_from [] cs)
      else split_ws_from (cur @ [c]) cs)"

definition split_ws :: "string \<Rightarrow> string list" where
  "split_ws s = split_ws_from [] s"

text \<open>\<open>s.split(sep)\<close> for a one-character separator: never empty.\<close>

fun split_on :: "char \<Rightarrow> string \<Rightarrow> string list" where
  "split_on sep [] = [[]]"
| "split_on sep (c # cs) =
     (if c = sep then [] # split_on sep cs
      else (case split_on sep cs of [] \<Rightarrow> [[c]] | x # xs \<Rightarrow> (c # x) # xs))"

text \<open>\<open>sep.join(xs)\<close>.\<close>

fun join :: "string \<Rightarrow> string list \<Rightarrow> string" where
  "join sep [] = []"
| "join sep [x] = x"
| "join sep (x # y # ys) = x @ sep @ join sep (y # ys)"

text \<open>\<open>s.replace(old, new)\<close> for a non-empty \<open>old\<close> (the only use in the source).\<close>

function replace :: "string \<Rightarrow> string \<Rightarrow> string \<Rightarrow> string" where
  "replace old new s =
     (case s of [] \<Rightarrow> []
      | c # cs \<Rightarrow>
          if old \<noteq> [] \<and> starts_with s old then new @ replace old new (drop (length old) s)
          else c # replace old new cs)"
  by pat_completeness auto
termination
  by (relation "measure (\<lambda>(old, new, s). length s)") auto

declare replace.simps [simp del]

text \<open>\<open>s.index(p)\<close>: \<open>None\<close> stands for the \<open>ValueError\<close> of a missing substring.\<close>

fun index_of :: "string \<Rightarrow> string \<Rightarrow> nat option" where
  "index_of [] p = (if p = [] then Some 0 else None)"
| "index_of (c # cs) p =
     (if starts_with (c # cs) p then Some 0 else map_option Suc (index_of cs p))"

text \<open>\<open>s[a:b]\<close> for non-negative \<open>a\<close> and \<open>b\<close>; the same on lists.\<close>

definition slice :: "nat \<Rightarrow> nat \<Rightarrow> 'a list \<Rightarrow> 'a list" where
  "slice a b s = drop a (take b s)"

text \<open>\<open>str(n)\<close> for a non-negative integer.\<close>

definition digit_char :: "nat \<Rightarrow> char" where
  "digit_char d = ''0123456789'' ! (d mod 10)"

function str_of_nat :: "nat \<Rightarrow> string" where
  "str_of_nat n = (if n < 10 then [digit_char n] else str_of_nat (n div 10) @ [digit_char n])"
  by pat_completeness auto
termination
  by (relation "measure (\<lambda>n. n)") auto

declare str_of_nat.simps [simp del]

abbreviation newline :: string where
  "newline \<equiv> [CHR 0x0A]"

abbreviation dquote :: char where
  "dquote \<equiv> CHR 0x22"

abbreviation squote :: char where
  "squote \<equiv> CHR 0x27"

abbreviation backslash :: char where
  "backslash \<equiv> CHR 0x5C"


section \<open>Values, dictionaries and errors\<close>

text \<open>
  The parser builds untyped Python values: a \<open>str\<close> (script bodies, property values, bare
  flags), a list of \<open>str\<close> (pseudo-arrays, monitor lists) or a \<open>dict\<close> keyed by \<open>str\<close>
  (objects; the empty object is \<open>Obj []\<close>).
\<close>

datatype config_value =
    Str string
  | Tokens "string list"
  | Obj "(string \<times> config_value) list"

type_synonym dict = "(string \<times> config_value) list"

text \<open>
  A \<open>dict\<close> keeps insertion order: \<open>d[k] = v\<close> replaces the value of a present key where it
  stands and appends an absent one. \<open>dict_get\<close> is the lookup.
\<close>

fun dict_set :: "string \<Rightarrow> config_value \<Rightarrow> dict \<Rightarrow> dict" where
  "dict_set k v [] = [(k, v)]"
| "dict_set k v ((k', v') # d) = (if k' = k then (k, v) # d else (k', v') # dict_set k v d)"

fun dict_get :: "dict \<Rightarrow> string \<Rightarrow> config_value option" where
  "dict_get [] k = None"
| "dict_get ((k', v') # d) k = (if k' = k then Some v' else dict_get d k)"

text \<open>\<open>d.update(e)\<close>, and the dictionary a comprehension builds from pairs in order.\<close>

fun dict_update :: "dict \<Rightarrow> (string \<times> config_value) list \<Rightarrow> dict" where
  "dict_update d [] = d"
| "dict_update d ((k, v) # e) = dict_update (dict_set k v d) e"

definition dict_of_pairs :: "(string \<times> config_value) list \<Rightarrow> dict" where
  "dict_of_pairs kvs = dict_update [] kvs"

text \<open>
  The exceptions the parser can raise, and \<open>str(e)\<close>. \<open>IndexError\<close> is a list read out of
  range; \<open>ValueError\<close> carries its message (the two \<open>raise\<close> statements of \<open>orchestrate\<close>
  and \<open>str.index\<close>); \<open>AttributeError\<close> is \<open>.update\<close> called on a value that is no dict.
  \<open>WrappedError\<close> is the \<open>Exception\<close> that \<open>parse_files\<close> raises in its handler.
\<close>

datatype py_error =
    IndexError
  | ValueError string
  | AttributeError string
  | WrappedError string

fun error_message :: "py_error \<Rightarrow> string" where
  "error_message IndexError = ''list index out of range''"
| "error_message (ValueError m) = m"
| "error_message (AttributeError m) = m"
| "error_message (WrappedError m) = m"

definition missing_brace_message :: "string \<Rightarrow> string" where
  "missing_brace_message line =
     ''Missing or mis-indented '' @ [squote] @ ''}'' @ [squote] @ '' for line: '' @ [squote] @ line @ [squote]"

definition unclosed_quote_message :: "string \<Rightarrow> string" where
  "unclosed_quote_message line =
     ''Unclosed quote in multiline string starting at: '' @ [squote] @ line @ [squote]"

definition no_update_message :: "string \<Rightarrow> string" where
  "no_update_message ty =
     [squote] @ ty @ [squote] @ '' object has no attribute '' @ [squote] @ ''update'' @ [squote]"

section \<open>The static helpers of BigIPConfigParser\<close>

definition count_indent :: "string \<Rightarrow> nat" where
  "count_indent s = length s - length (lstrip s)"

text \<open>
  \<open>get_title\<close> is \<open>re.sub(r'\s?\{\s?}?$', '', string).strip()\<close>. \<open>title_tail r\<close> says that
  the pattern matches all of \<open>r\<close>: an optional whitespace character, an open brace, an
  optional whitespace character, an optional closing brace, and the end of the string,
  which \<open>$\<close> also finds before one final newline. \<open>title_cut\<close> removes the leftmost
  match; what may remain behind it is that final newline, which \<open>strip\<close> removes.
\<close>

definition title_end :: "string \<Rightarrow> bool" where
  "title_end u = (u = [] \<or> u = ''}'' \<or> u = newline \<or> u = ''}'' @ newline)"

definition title_tail :: "string \<Rightarrow> bool" where
  "title_tail r =
     (let r' = (case r of [] \<Rightarrow> [] | c # cs \<Rightarrow> if is_space c then cs else r)
      in case r' of [] \<Rightarrow> False
         | b # t \<Rightarrow> b = CHR ''{'' \<and>
             (title_end t \<or> (case t of [] \<Rightarrow> False | w # t' \<Rightarrow> is_space w \<and> title_end t')))"

fun title_cut :: "string \<Rightarrow> string" where
  "title_cut [] = []"
| "title_cut (c # cs) = (if title_tail (c # cs) then [] else c # title_cut cs)"

definition get_title :: "string \<Rightarrow> string" where
  "get_title s = strip (title_cut s)"

text \<open>\<open>obj_to_arr\<close>: \<open>line.split('{')[1].split('}')[0].strip().split()\<close>.\<close>

definition obj_to_arr :: "string \<Rightarrow> py_error + string list" where
  "obj_to_arr line =
     (case split_on CHR ''{'' line of
        _ # inner # _ \<Rightarrow> Inr (split_ws (strip (hd (split_on CHR ''}'' inner))))
      | _ \<Rightarrow> Inl IndexError)"

definition remove_indent :: "string list \<Rightarrow> string list" where
  "remove_indent arr = map (\<lambda>line. if count_indent line > 1 then drop 4 line else line) arr"

text \<open>
  \<open>str_to_obj\<close> and \<open>arr_to_multiline_str\<close> unpack \<open>key, *rest = ....split()\<close>, which
  raises \<open>ValueError\<close> when the split is empty.
\<close>

definition unpack_message :: string where
  "unpack_message = ''not enough values to unpack (expected at least 1, got 0)''"

definition str_to_obj :: "string \<Rightarrow> py_error + (string \<times> string)" where
  "str_to_obj line =
     (case split_ws (strip line) of
        [] \<Rightarrow> Inl (ValueError unpack_message)
      | key # rest \<Rightarrow> Inr (key, join '' '' rest))"

definition arr_to_multiline_str :: "string list \<Rightarrow> py_error + (string \<times> string)" where
  "arr_to_multiline_str arr =
     (case arr of
        [] \<Rightarrow> Inl IndexError
      | first # others \<Rightarrow>
          (case split_ws (strip first) of
             [] \<Rightarrow> Inl (ValueError unpack_message)
           | key # rest \<Rightarrow> Inr (key, join newline (join '' '' rest # others))))"

definition is_rule :: "string \<Rightarrow> bool" where
  "is_rule s = (contains s ''ltm rule'' \<or> contains s ''gtm rule'' \<or> contains s ''pem irule'')"


section \<open>The object builder: orchestrate\<close>

text \<open>
  \<open>find_close arr i\<close> is \<open>next((j for j, l in enumerate(arr[i:], start=i) if l == '    }'), None)\<close>.
\<close>

fun find_first :: "('a \<Rightarrow> bool) \<Rightarrow> 'a list \<Rightarrow> nat option" where
  "find_first P [] = None"
| "find_first P (x # xs) = (if P x then Some 0 else map_option Suc (find_first P xs))"

definition find_close :: "string list \<Rightarrow> nat \<Rightarrow> nat option" where
  "find_close arr i = map_option (\<lambda>j. i + j) (find_first (\<lambda>l. l = ''    }'') (drop i arr))"

text \<open>
  The scan for the end of a multi-line quoted string,
  \<open>for j, l in enumerate(arr[i:]): if l.count('"') % 2 == 1: c = j + i\<close>.
  It has no \<open>break\<close>: \<open>c\<close> is assigned at every line with an odd number of quotes, from
  the line \<open>i\<close> itself on. \<open>scan_quotes c j ls\<close> runs it on the lines \<open>ls\<close>, the first of
  which has index \<open>j\<close>, from the value \<open>c\<close> that the variable holds (\<open>None\<close> before its
  first assignment).
\<close>

definition odd_quotes :: "string \<Rightarrow> bool" where
  "odd_quotes l = (count_char dquote l mod 2 = 1)"

fun scan_quotes :: "nat option \<Rightarrow> nat \<Rightarrow> string list \<Rightarrow> nat option" where
  "scan_quotes c j [] = c"
| "scan_quotes c j (l # ls) = scan_quotes (if odd_quotes l then Some j else c) (Suc j) ls"

text \<open>The coercion of unnamed nested objects: \<open>f"{j} {l}" if l == '    {' else l\<close>.\<close>

fun coerce_from :: "nat \<Rightarrow> string list \<Rightarrow> string list" where
  "coerce_from j [] = []"
| "coerce_from j (l # ls) =
     (if l = ''    {'' then str_of_nat j @ '' '' @ l else l) # coerce_from (Suc j) ls"

definition coerce_arr :: "string list \<Rightarrow> string list" where
  "coerce_arr sub_obj_arr = coerce_from 0 sub_obj_arr"

text \<open>\<open>re.match(r'^"[\s\S]*"$', s)\<close>: \<open>$\<close> also matches before one final newline.\<close>

definition fully_quoted :: "string \<Rightarrow> bool" where
  "fully_quoted s =
     (case s of [] \<Rightarrow> False
      | c # t \<Rightarrow> c = dquote \<and> (ends_with t [dquote] \<or> ends_with t (dquote # newline)))"

definition single_string :: "string \<Rightarrow> bool" where
  "single_string line =
     ((count_char CHR '' '' (strip line) = 0 \<or> fully_quoted (strip line)) \<and> \<not> contains line ''}'')"

text \<open>
  \<open>obj.setdefault('user-defined', {}).update(self.str_to_obj(val))\<close>: the attribute
  \<open>update\<close> is looked up on the stored value before the argument is evaluated.
\<close>

definition set_user_defined :: "string \<Rightarrow> dict \<Rightarrow> py_error + dict" where
  "set_user_defined val obj =
     (case (case dict_get obj ''user-defined'' of
              None \<Rightarrow> Inr []
            | Some (Obj m) \<Rightarrow> Inr m
            | Some (Str _) \<Rightarrow> Inl (AttributeError (no_update_message ''str''))
            | Some (Tokens _) \<Rightarrow> Inl (AttributeError (no_update_message ''list''))) of
        Inl e \<Rightarrow> Inl e
      | Inr m \<Rightarrow>
          (case str_to_obj val of
             Inl e \<Rightarrow> Inl e
           | Inr (k, v) \<Rightarrow> Inr (dict_set ''user-defined'' (Obj (dict_set k (Str v) m)) obj)))"

text \<open>
  The typical string property of the last branch: \<open>tmp = self.str_to_obj(line.strip())\<close>,
  merged under \<open>user-defined\<close> for an external GTM monitor and directly otherwise.
\<close>

definition string_property :: "string \<Rightarrow> string \<Rightarrow> dict \<Rightarrow> py_error + dict" where
  "string_property key line obj =
     (case str_to_obj (strip line) of
        Inl e \<Rightarrow> Inl e
      | Inr (k, v) \<Rightarrow>
          if starts_with key ''gtm monitor external'' \<and> k = ''user-defined''
          then set_user_defined v obj
          else Inr (dict_set k (Str v) obj))"

text \<open>
  \<open>orchestrate arr0\<close> returns the one pair of the dictionary \<open>{key: value}\<close>. \<open>walk\<close> is
  its \<open>while i < len(arr)\<close> loop over the body \<open>arr\<close>, with the loop's variables \<open>i\<close>,
  \<open>c\<close> (\<open>None\<close> until it is assigned) and \<open>obj\<close>. An unexpected line is printed and
  skipped; the model skips it. The recursion is as deep as the objects are nested;
  Python's limit on that depth is not part of the model.
\<close>

function orchestrate :: "string list \<Rightarrow> py_error + (string \<times> config_value)"
  and walk :: "string \<Rightarrow> string list \<Rightarrow> nat \<Rightarrow> nat option \<Rightarrow> dict \<Rightarrow> py_error + dict"
where
  "orchestrate arr0 =
     (case arr0 of
        [] \<Rightarrow> Inl IndexError
      | header # _ \<Rightarrow>
          if length arr0 \<le> 1 then Inr (get_title header, Obj [])
          else if is_rule (get_title header)
            then Inr (get_title header, Str (join newline (butlast (tl arr0))))
          else if contains (get_title header) ''monitor min''
            then Inr (get_title header, Tokens (split_ws (join '' '' (map strip (butlast (tl arr0))))))
          else if contains (get_title header) ''cli script''
                  \<or> contains (get_title header) ''sys crypto cert-order-manager''
            then Inr (get_title header, Obj [])
          else (case walk (get_title header) (butlast (tl arr0)) 0 None [] of
                  Inl e \<Rightarrow> Inl e
                | Inr obj \<Rightarrow> Inr (get_title header, Obj obj)))"
| "walk key arr i c obj =
     (if i < length arr then
        if ends_with (arr ! i) ''{'' \<and> length arr \<noteq> 1 then
          (case find_close arr i of
             None \<Rightarrow> Inl (ValueError (missing_brace_message (arr ! i)))
           | Some c' \<Rightarrow>
               (case orchestrate (coerce_arr (remove_indent (slice i (c' + 1) arr))) of
                  Inl e \<Rightarrow> Inl e
                | Inr (k, v) \<Rightarrow> walk key arr (c' + 1) (Some c') (dict_set k v obj)))
        else if ends_with (strip (arr ! i)) ''{ }'' then
          walk key arr (i + 1) c (dict_set (strip (hd (split_on CHR ''{'' (arr ! i)))) (Obj []) obj)
        else if contains (arr ! i) ''{'' \<and> contains (arr ! i) ''}'' \<and> \<not> contains (arr ! i) [dquote] then
          (case obj_to_arr (arr ! i) of
             Inl e \<Rightarrow> Inl e
           | Inr toks \<Rightarrow>
               walk key arr (i + 1) c (dict_set (strip (hd (split_on CHR ''{'' (arr ! i)))) (Tokens toks) obj))
        else if single_string (arr ! i) then
          walk key arr (i + 1) c (dict_set (strip (arr ! i)) (Str []) obj)
        else if count_indent (arr ! i) = 4 then
          if odd_quotes (arr ! i) then
            (case scan_quotes c i (drop i arr) of
               None \<Rightarrow> Inl (ValueError (unclosed_quote_message (arr ! i)))
             | Some c' \<Rightarrow>
                 (case arr_to_multiline_str (slice i (c' + 1) arr) of
                    Inl e \<Rightarrow> Inl e
                  | Inr (k, v) \<Rightarrow> walk key arr (c' + 1) (Some c') (dict_set k (Str v) obj)))
          else
            (case string_property key (arr ! i) obj of
               Inl e \<Rightarrow> Inl e
             | Inr obj' \<Rightarrow> walk key arr (i + 1) c obj')
        else walk key arr (i + 1) c obj
      else Inr obj)"
  by pat_completeness auto


text \<open>
  Termination: the body handed to \<open>walk\<close> is shorter than the group, a nested sub-range is
  no longer than the body it is cut from, and \<open>i\<close> grows in every round of the loop.
\<close>

lemma scan_quotes_lower:
  "scan_quotes c j ls = Some c' \<Longrightarrow> (\<forall>x. c = Some x \<longrightarrow> m \<le> x) \<Longrightarrow> m \<le> j \<Longrightarrow> m \<le> c'"
  by (induction ls arbitrary: c j) (auto split: if_splits)

lemma scan_quotes_first:
  "scan_quotes c i (drop i arr) = Some c' \<Longrightarrow> i < length arr \<Longrightarrow> odd_quotes (arr ! i) \<Longrightarrow> i \<le> c'"
  by (cases "drop i arr")
     (auto simp: hd_drop_conv_nth dest!: scan_quotes_lower[where m=i] simp flip: Cons_nth_drop_Suc)

lemma find_close_ge: "find_close arr i = Some c' \<Longrightarrow> i \<le> c'"
  by (auto simp: find_close_def)

lemma length_coerce_from: "length (coerce_from j ls) = length ls"
  by (induction ls arbitrary: j) auto

lemma length_sub_obj: "length (coerce_arr (remove_indent (slice i b arr))) \<le> length arr - i"
  by (simp add: coerce_arr_def remove_indent_def slice_def length_coerce_from)

termination orchestrate
  apply (relation "inv_image (less_than <*lex*> less_than)
     (\<lambda>x. case x of Inl arr0 \<Rightarrow> (length arr0, 0)
                  | Inr (key, arr, i, c, obj) \<Rightarrow> (length arr + 1, length arr - i))")
  subgoal by (intro wf_inv_image wf_lex_prod wf_less_than)
  subgoal by simp
  subgoal for key arr i c obj c' using length_sub_obj[of i "c' + 1" arr] by auto
  subgoal by (auto dest: find_close_ge)
  subgoal by auto
  subgoal by auto
  subgoal by auto
  subgoal by (frule (2) scan_quotes_first) auto
  subgoal by auto
  subgoal by auto
  done

declare orchestrate.simps [simp del] walk.simps [simp del]

section \<open>The root grouper: group_objects\<close>

text \<open>
  The brace count of one scanned line: \<open>re.sub(r'\\"', '', line.strip())\<close>, then
  \<open>re.sub(r'"[^"]*"', '', ...)\<close>, then the open braces minus the closing ones.
\<close>

function remove_quoted :: "string \<Rightarrow> string" where
  "remove_quoted s =
     (case s of [] \<Rightarrow> []
      | c # cs \<Rightarrow>
          if c = dquote \<and> dquote \<in> set cs
          then remove_quoted (tl (dropWhile (\<lambda>x. x \<noteq> dquote) cs))
          else c # remove_quoted cs)"
  by pat_completeness auto
termination
  by (relation "measure length")
     (auto simp: less_Suc_eq_le intro: order_trans[OF diff_le_self length_dropWhile_le])

declare remove_quoted.simps [simp del]

definition updated_line :: "string \<Rightarrow> string" where
  "updated_line line = remove_quoted (replace [backslash, dquote] [] (strip line))"

definition brace_delta :: "string \<Rightarrow> int" where
  "brace_delta line =
     int (count_char CHR ''{'' (updated_line line)) - int (count_char CHR ''}'' (updated_line line))"

definition rule_exempt :: "string \<Rightarrow> bool" where
  "rule_exempt line =
     (starts_with (strip line) ''#'' \<or> starts_with (strip line) ''set''
      \<or> starts_with (strip line) ''STREAM'')"

text \<open>
  The inner loop \<open>while bracket_count != 0\<close> with its variables \<open>c\<close> and \<open>bracket_count\<close>;
  it returns the final \<open>c\<close>. Reading \<open>arr[i + c]\<close> past the end raises \<open>IndexError\<close>.
\<close>

function scan :: "string list \<Rightarrow> nat \<Rightarrow> bool \<Rightarrow> nat \<Rightarrow> int \<Rightarrow> py_error + nat" where
  "scan arr i rule_flag c bracket_count =
     (if bracket_count = 0 then Inr c
      else if length arr \<le> i + (c + 1) then Inl IndexError
      else if is_rule (arr ! (i + (c + 1))) then Inr c
      else scan arr i rule_flag (c + 1)
             (if rule_exempt (arr ! (i + (c + 1))) \<and> rule_flag then bracket_count
              else bracket_count + brace_delta (arr ! (i + (c + 1)))))"
  by pat_completeness auto
termination
  by (relation "measure (\<lambda>(arr, i, rule_flag, c, bracket_count). length arr - (i + c))") auto

declare scan.simps [simp del]

function group_loop :: "string list \<Rightarrow> nat \<Rightarrow> string list list \<Rightarrow> py_error + string list list" where
  "group_loop arr i grp =
     (if i < length arr then
        if contains (arr ! i) ''{'' \<and> contains (arr ! i) ''}'' \<and> \<not> starts_with (arr ! i) '' ''
          then group_loop arr (i + 1) (grp @ [[arr ! i]])
        else if ends_with (strip (arr ! i)) ''{'' \<and> \<not> starts_with (arr ! i) '' '' then
          (case scan arr i (is_rule (arr ! i)) 0 1 of
             Inl e \<Rightarrow> Inl e
           | Inr c \<Rightarrow> group_loop arr (i + c + 1) (grp @ [slice i (i + c + 1) arr]))
        else group_loop arr (i + 1) grp
      else Inr grp)"
  by pat_completeness auto
termination
  by (relation "measure (\<lambda>(arr, i, grp). length arr - i)") auto

declare group_loop.simps [simp del]

definition group_objects :: "string list \<Rightarrow> py_error + string list list" where
  "group_objects arr = group_loop arr 0 []"


section \<open>The document assembler: parse_files\<close>

text \<open>
  The instance fields of the parser (set in \<open>__init__\<close>, assigned again by \<open>parse_files\<close>),
  and the local variables of the loop over the lines of one file.
\<close>

record parser_state =
  topology_arr :: "string list"
  topology_count :: nat
  longest_match_enabled :: bool

record file_locals =
  new_file_arr :: "string list"
  in_topology :: bool
  irule :: int

definition init_parser :: parser_state where
  "init_parser = \<lparr>topology_arr = [], topology_count = 0, longest_match_enabled = False\<rparr>"

text \<open>
  The comment and script-depth part of one round: the line as it goes on, and \<open>irule\<close>.
\<close>

definition mark_comment :: "int \<Rightarrow> string \<Rightarrow> string \<times> int" where
  "mark_comment ir line =
     (if ir = 0 then
        (if starts_with (strip line) ''# '' then (replace ''# '' ''#comment# '' (strip line), ir)
         else if is_rule line then (line, ir + 1)
         else (line, ir))
      else if \<not> starts_with (strip line) ''#''
        then (line, ir + int (count_char CHR ''{'' line) - int (count_char CHR ''}'' line))
      else (line, ir))"

text \<open>
  The three lines of a topology record. \<open>line.index\<close> raises \<open>ValueError\<close> when
  \<open>ldns:\<close>, \<open>server:\<close> or the open brace is missing.
\<close>

definition topology_record :: "nat \<Rightarrow> string \<Rightarrow> py_error + string list" where
  "topology_record n line =
     (case index_of line ''ldns:'' of
        None \<Rightarrow> Inl (ValueError ''substring not found'')
      | Some ldns_index \<Rightarrow>
     (case index_of line ''server:'' of
        None \<Rightarrow> Inl (ValueError ''substring not found'')
      | Some server_index \<Rightarrow>
     (case index_of line ''{'' of
        None \<Rightarrow> Inl (ValueError ''substring not found'')
      | Some bracket_index \<Rightarrow>
          Inr [''        topology_'' @ str_of_nat n @ '' {'',
               ''            source '' @ strip (slice (ldns_index + 5) server_index line),
               ''            destination '' @ strip (slice (server_index + 7) bracket_index line)])))"

definition process_line ::
  "parser_state \<Rightarrow> file_locals \<Rightarrow> string \<Rightarrow> py_error + (parser_state \<times> file_locals)" where
  "process_line self loc line0 =
     (let line = fst (mark_comment (irule loc) line0);
          loc1 = loc\<lparr>irule := snd (mark_comment (irule loc) line0)\<rparr>
      in if contains line ''topology-longest-match'' \<and> contains line ''yes''
           then Inr (self\<lparr>longest_match_enabled := True\<rparr>, loc1)
         else if starts_with line ''gtm topology ldns:'' then
           (case topology_record (topology_count self) line of
              Inl e \<Rightarrow> Inl e
            | Inr rec \<Rightarrow>
                Inr (self\<lparr>topology_arr :=
                            (if topology_arr self = []
                             then [''gtm topology /Common/Shared/topology {'', ''    records {'']
                             else topology_arr self) @ rec,
                          topology_count := topology_count self + 1\<rparr>,
                     loc1\<lparr>in_topology := True\<rparr>))
         else if in_topology loc1 then
           (if line = ''}''
            then Inr (self\<lparr>topology_arr := topology_arr self @ [''        }'']\<rparr>,
                      loc1\<lparr>in_topology := False\<rparr>)
            else Inr (self\<lparr>topology_arr := topology_arr self @ [''        '' @ line]\<rparr>, loc1))
         else Inr (self, loc1\<lparr>new_file_arr := new_file_arr loc1 @ [line]\<rparr>))"

fun process_lines ::
  "parser_state \<Rightarrow> file_locals \<Rightarrow> string list \<Rightarrow> py_error + (parser_state \<times> file_locals)" where
  "process_lines self loc [] = Inr (self, loc)"
| "process_lines self loc (line # lines) =
     (case process_line self loc line of
        Inl e \<Rightarrow> Inl e
      | Inr (self', loc') \<Rightarrow> process_lines self' loc' lines)"

definition bool_lower :: "bool \<Rightarrow> string" where
  "bool_lower b = (if b then ''true'' else ''false'')"

definition close_topology :: "parser_state \<Rightarrow> parser_state" where
  "close_topology self =
     (if topology_arr self \<noteq> [] then
        self\<lparr>topology_arr := topology_arr self @
               [''        longest-match-enabled '' @ bool_lower (longest_match_enabled self),
                ''    }'', ''}'']\<rparr>
      else self)"

definition keep_line :: "string \<Rightarrow> bool" where
  "keep_line line = (line \<noteq> [] \<and> \<not> starts_with (strip line) ''#comment# '')"

text \<open>
  The body of the loop over the files, up to the filtered \<open>file_arr\<close>: the split into
  lines, the assignments that empty the three fields, the loop over the lines, the closing
  lines of the topology block and the filter.
\<close>

definition preprocess :: "parser_state \<Rightarrow> string \<Rightarrow> py_error + (parser_state \<times> string list)" where
  "preprocess self text =
     (case process_lines
             (self\<lparr>topology_arr := [], topology_count := 0, longest_match_enabled := False\<rparr>)
             \<lparr>new_file_arr = [], in_topology = False, irule = 0\<rparr>
             (split_on CHR 0x0A (replace [CHR 0x0D, CHR 0x0A] newline text)) of
        Inl e \<Rightarrow> Inl e
      | Inr (self1, loc) \<Rightarrow>
          Inr (close_topology self1,
               filter keep_line (new_file_arr loc @ topology_arr (close_topology self1))))"

text \<open>\<open>[self.orchestrate(obj) for obj in ...]\<close>: the first error ends the comprehension.\<close>

fun orchestrate_all :: "string list list \<Rightarrow> py_error + (string \<times> config_value) list" where
  "orchestrate_all [] = Inr []"
| "orchestrate_all (g # gs) =
     (case orchestrate g of
        Inl e \<Rightarrow> Inl e
      | Inr kv \<Rightarrow> (case orchestrate_all gs of Inl e \<Rightarrow> Inl e | Inr kvs \<Rightarrow> Inr (kv # kvs)))"

text \<open>One file: the parser's fields after it, and the dictionary handed to \<open>data.update\<close>.\<close>

definition parse_file :: "parser_state \<Rightarrow> string \<Rightarrow> py_error + (parser_state \<times> dict)" where
  "parse_file self text =
     (case preprocess self text of
        Inl e \<Rightarrow> Inl e
      | Inr (self', file_arr) \<Rightarrow>
          (case group_objects file_arr of
             Inl e \<Rightarrow> Inl e
           | Inr groups \<Rightarrow>
               (case orchestrate_all groups of
                  Inl e \<Rightarrow> Inl e
                | Inr group_arr \<Rightarrow> Inr (self', dict_of_pairs group_arr))))"

definition excluded :: "string \<Rightarrow> bool" where
  "excluded key =
     (contains key ''Common_d'' \<or> contains key ''bigip_script.conf'' \<or> contains key ''.license'')"

text \<open>
  \<open>files\<close> is the dictionary in its iteration order. \<open>parse_loop\<close> is the body of the
  \<open>try\<close>; \<open>parse_files\<close> adds the handler, which raises a new exception from the message
  of any exception of the body.
\<close>

fun parse_loop :: "parser_state \<Rightarrow> dict \<Rightarrow> (string \<times> string) list \<Rightarrow> py_error + dict" where
  "parse_loop self data [] = Inr data"
| "parse_loop self data ((key, text) # files) =
     (if excluded key then parse_loop self data files
      else (case parse_file self text of
              Inl e \<Rightarrow> Inl e
            | Inr (self', d) \<Rightarrow> parse_loop self' (dict_update data d) files))"

definition error_prefix :: string where
  "error_prefix = ''Error parsing input file. Error as following error:'' @ newline"

definition parse_files :: "parser_state \<Rightarrow> (string \<times> string) list \<Rightarrow> py_error + dict" where
  "parse_files self files =
     (case parse_loop self [] files of
        Inl e \<Rightarrow> Inl (WrappedError (error_prefix @ error_message e))
      | Inr data \<Rightarrow> Inr data)"


section \<open>Script and rule objects of a file\<close>









text \<open>
  \<open>defines_not k f\<close>: the file \<open>f\<close> (name and text) gives the document no root object
  named \<open>k\<close>, because it is skipped, or fails, or parses to objects of other names.
\<close>

definition defines_not :: "string \<Rightarrow> string \<times> string \<Rightarrow> bool" where
  "defines_not k f =
     (excluded (fst f) \<or>
      (case parse_file init_parser (snd f) of Inl e \<Rightarrow> True | Inr r \<Rightarrow> dict_get (snd r) k = None))"

section \<open>Shared lemmas\<close>

lemma parse_file_reset: "parse_file self content = parse_file init_parser content"
  by (cases self) (simp add: parse_file_def preprocess_def init_parser_def)

lemma parse_loop_reset: "parse_loop self data files = parse_loop init_parser data files"
proof (induction files arbitrary: self data)
  case Nil
  then show ?case by simp
next
  case (Cons f files)
  obtain key content where f: "f = (key, content)" by (cases f)
  show ?case
    unfolding f parse_loop.simps parse_file_reset[of self content]
    using Cons.IH by (auto split: sum.splits)
qed

lemma dict_get_map_of: "dict_get d k = map_of d k"
  by (induction d) auto

lemma map_of_dict_set: "map_of (dict_set k v d) = (map_of d)(k \<mapsto> v)"
  by (induction d) (auto simp: fun_eq_iff)

lemma keys_dict_set: "set (map fst (dict_set k v d)) = insert k (set (map fst d))"
  by (induction k v d rule: dict_set.induct) auto

lemma distinct_dict_set: "distinct (map fst d) \<Longrightarrow> distinct (map fst (dict_set k v d))"
proof (induction d)
  case Nil
  then show ?case by simp
next
  case (Cons p d)
  obtain k' v' where p: "p = (k', v')" by (cases p)
  show ?case
  proof (cases "k' = k")
    case True
    then show ?thesis using Cons.prems by (simp add: p)
  next
    case False
    have "k' \<notin> set (map fst (dict_set k v d))"
      using Cons.prems False unfolding keys_dict_set by (simp add: p)
    then show ?thesis using Cons False by (simp add: p)
  qed
qed

lemma map_of_rev_distinct: "distinct (map fst xs) \<Longrightarrow> map_of (rev xs) = map_of xs"
  by (induction xs)
     (auto simp: fun_eq_iff map_add_def image_iff split: option.splits dest: map_of_SomeD)

lemma distinct_dict_update: "distinct (map fst d) \<Longrightarrow> distinct (map fst (dict_update d e))"
  by (induction e arbitrary: d) (auto simp: distinct_dict_set)

lemma map_of_dict_update: "map_of (dict_update d e) = map_of d ++ map_of (rev e)"
  by (induction e arbitrary: d) (auto simp: map_of_dict_set)

lemma dict_get_update:
  "distinct (map fst e) \<Longrightarrow>
   dict_get (dict_update d e) k = (case dict_get e k of None \<Rightarrow> dict_get d k | Some v \<Rightarrow> Some v)"
  by (simp add: dict_get_map_of map_of_dict_update map_of_rev_distinct map_add_def
           cong: option.case_cong)

lemma parse_file_distinct: "parse_file self text = Inr (s, d) \<Longrightarrow> distinct (map fst d)"
  by (auto simp: parse_file_def dict_of_pairs_def distinct_dict_update split: sum.splits)

lemma parse_loop_keeps:
  "parse_loop self data files = Inr out \<Longrightarrow> list_all (defines_not k) files \<Longrightarrow>
   dict_get out k = dict_get data k"
proof (induction files arbitrary: self data)
  case Nil
  then show ?case by simp
next
  case (Cons f files)
  obtain key content where f: "f = (key, content)" by (cases f)
  show ?case
  proof (cases "excluded key")
    case True
    then show ?thesis using Cons by (simp add: f)
  next
    case False
    then obtain s d where pf: "parse_file init_parser content = Inr (s, d)"
      and rest: "parse_loop s (dict_update data d) files = Inr out"
      using Cons.prems(1) by (auto simp: f parse_file_reset[of self content] split: sum.splits)
    have none: "dict_get d k = None"
      using Cons.prems(2) False pf by (simp add: f defines_not_def)
    have "dict_get out k = dict_get (dict_update data d) k"
      using Cons.IH[OF rest] Cons.prems(2) by simp
    then show ?thesis
      using dict_get_update[OF parse_file_distinct[OF pf], of data k] none by simp
  qed
qed

lemma parse_loop_append:
  "parse_loop self data (xs @ ys) =
     (case parse_loop self data xs of Inl e \<Rightarrow> Inl e | Inr d \<Rightarrow> parse_loop init_parser d ys)"
proof (induction xs arbitrary: self data)
  case Nil
  then show ?case using parse_loop_reset[of self data ys] by simp
next
  case (Cons f xs)
  obtain key content where f: "f = (key, content)" by (cases f)
  show ?case using Cons.IH by (auto simp: f split: sum.splits)
qed

lemma parse_loop_all_parsed:
  "parse_loop self data files = Inr out \<Longrightarrow> (key, content) \<in> set files \<Longrightarrow> \<not> excluded key \<Longrightarrow>
   \<exists>r. parse_file init_parser content = Inr r"
proof (induction files arbitrary: self data)
  case Nil
  then show ?case by simp
next
  case (Cons f files)
  obtain key' content' where f: "f = (key', content')" by (cases f)
  show ?case
  proof (cases "excluded key'")
    case True
    then show ?thesis using Cons by (auto simp: f)
  next
    case False
    then obtain s d where pf: "parse_file init_parser content' = Inr (s, d)"
      and rest: "parse_loop s (dict_update data d) files = Inr out"
      using Cons.prems(1) by (auto simp: f parse_file_reset[of self content'] split: sum.splits)
    show ?thesis using Cons.prems(2) Cons.IH[OF rest _ Cons.prems(3)] pf by (auto simp: f)
  qed
qed




lemma pseudo_array_line:
  "\<not> ends_with ''    foo { a b c }'' ''{''"
  "\<not> ends_with (strip ''    foo { a b c }'') ''{ }''"
  "contains ''    foo { a b c }'' ''{''"
  "contains ''    foo { a b c }'' ''}''"
  "\<not> contains ''    foo { a b c }'' [dquote]"
  "obj_to_arr ''    foo { a b c }'' = Inr [''a'', ''b'', ''c'']"
  "strip (hd (split_on CHR ''{'' ''    foo { a b c }'')) = ''foo''"
  by code_simp+

text \<open>
  The scan for the closing quote line starts at a line with an odd number of quotes, so it
  always assigns \<open>c\<close>: the unclosed-quote \<open>raise\<close> of \<open>orchestrate\<close> cannot be reached.
\<close>

lemma scan_quotes_assigned: "scan_quotes (Some x) j ls \<noteq> None"
  by (induction ls arbitrary: x j) auto

lemma unclosed_quote_unreachable:
  "i < length arr \<Longrightarrow> odd_quotes (arr ! i) \<Longrightarrow> scan_quotes c i (drop i arr) \<noteq> None"
  by (simp add: scan_quotes_assigned flip: Cons_nth_drop_Suc)

lemma parse_files_reset: "parse_files self files = parse_files init_parser files"
  using parse_loop_reset[of self "[]" files] by (simp add: parse_files_def)











































text \<open>
  The conditions on the body lines are needed. In the first file the quoted brace of the
  \<open>set\<close> line takes the preprocessor's depth to zero, the comment after it is marked
  and filtered, and the body comes back without it. In the second file the body line
  holds a rule-kind marker, the grouper ends the group before it, and the rule gets the
  empty object.
\<close>

lemma rule_body_lines_lost:
  \<open>parse_files init_parser
     [(''bigip.conf'', ''ltm rule r {\<newline>    set x "}"\<newline>    # note\<newline>}'')]
   = Inr [(''ltm rule r'', Str ''    set x "}"'')]\<close>
  \<open>parse_files init_parser
     [(''bigip.conf'', ''ltm rule r {\<newline>    log "see ltm rule x"\<newline>}'')]
   = Inr [(''ltm rule r'', Obj [])]\<close>
  by code_simp+

section \<open>The claims\<close>

subsection \<open>C1: the synthesized topology object\<close>

text \<open>
  C1, as stated: a file of the two lines \<open>gtm topology ldns: net1 server: net2 { }\<close> and
  the line \<open>topology-longest-match yes\<close> gives a document with the topology object. It
  does not: the directive is closed only by a later line that is exactly a closing brace,
  so the two records stay open, the synthesized lines are unbalanced and the grouper reads
  past the end.
\<close>

theorem C1_counterexample:
  "parse_files init_parser
     [(''bigip_gtm.conf'',
       ''gtm topology ldns: net1 server: net2 { }\<newline>gtm topology ldns: net1 server: net2 { }\<newline>topology-longest-match yes'')]
   = Inl (WrappedError (error_prefix @ ''list index out of range''))"
  by code_simp

text \<open>
  C1, amended: when each of the two directives is a header line
  \<open>gtm topology ldns: net1 server: net2 {\<close> followed by a line holding only the closing
  brace, and one line sets \<open>topology-longest-match yes\<close>, \<open>parse_files\<close> returns the
  document whose key \<open>gtm topology /Common/Shared/topology\<close> maps to an object with a
  \<open>records\<close> object, in it \<open>topology_0\<close> and \<open>topology_1\<close> with \<open>source\<close> \<open>net1\<close> and
  \<open>destination\<close> \<open>net2\<close>, and \<open>longest-match-enabled\<close> equal to the string \<open>true\<close>;
  whatever state the parser object is in.
\<close>

theorem C1_topology_document:
  "parse_files self
     [(''bigip_gtm.conf'',
       ''gtm topology ldns: net1 server: net2 {\<newline>}\<newline>gtm topology ldns: net1 server: net2 {\<newline>}\<newline>topology-longest-match yes'')]
   = Inr [(''gtm topology /Common/Shared/topology'',
           Obj [(''records'',
                 Obj [(''topology_0'', Obj [(''source'', Str ''net1''), (''destination'', Str ''net2'')]),
                      (''topology_1'', Obj [(''source'', Str ''net1''), (''destination'', Str ''net2'')]),
                      (''longest-match-enabled'', Str ''true'')])])]"
proof -
  have "parse_files init_parser
     [(''bigip_gtm.conf'',
       ''gtm topology ldns: net1 server: net2 {\<newline>}\<newline>gtm topology ldns: net1 server: net2 {\<newline>}\<newline>topology-longest-match yes'')]
   = Inr [(''gtm topology /Common/Shared/topology'',
           Obj [(''records'',
                 Obj [(''topology_0'', Obj [(''source'', Str ''net1''), (''destination'', Str ''net2'')]),
                      (''topology_1'', Obj [(''source'', Str ''net1''), (''destination'', Str ''net2'')]),
                      (''longest-match-enabled'', Str ''true'')])])]"
    by code_simp
  then show ?thesis by (subst parse_files_reset) simp
qed

subsection \<open>C2: grouping well-formed root objects\<close>

text \<open>
  C2. For every sequence of filtered lines made only of well-formed, brace-balanced root
  objects with no script or rule header, \<open>group_objects\<close> returns one group for each
  column-0 object header, and the groups concatenated are the input lines. The code
  removes the quoted parts of each line by itself, so a brace inside a quoted string that
  runs over two lines is counted: the root object below, whose only braces outside the
  string are the header's and the closing one, takes the count past the end of the input
  and \<open>group_objects\<close> raises \<open>IndexError\<close>, where the claim gives one group of four
  lines. \<open>orchestrate\<close>, given these four lines, reads the two middle lines as one quoted
  string and builds the object.
\<close>

theorem C2_quoted_brace_across_lines:
  \<open>group_objects
     [''ltm pool p {'', ''    description "open { here'', ''    still in string"'', ''}'']
   = Inl IndexError
   \<and> parse_files init_parser
       [(''bigip.conf'',
         ''ltm pool p {\<newline>    description "open { here\<newline>    still in string"\<newline>}'')]
     = Inl (WrappedError (error_prefix @ ''list index out of range''))
   \<and> orchestrate
       [''ltm pool p {'', ''    description "open { here'', ''    still in string"'', ''}'']
     = Inr (''ltm pool p'',
            Obj [(''description'', Str ''"open { here\<newline>    still in string"'')])\<close>
  by code_simp

subsection \<open>C3: script and rule bodies\<close>




subsection \<open>C4: the end of a multi-line quoted string\<close>

text \<open>
  C4. A line at four columns with an odd number of double quotes opens a multi-line string
  that the next line with an odd number of double quotes closes. The code's loop has no
  \<open>break\<close> and ends at the last such line of the body: with two multi-line strings in one
  object, the first swallows the second. With one multi-line string in the body, the last
  such line is the next one, and the value is as the claim says.
\<close>

theorem C4_last_odd_quote_line:
  \<open>orchestrate [''foo {'', ''    desc "line one'', ''line two"'', ''    note "a'', ''b"'', ''}'']
   = Inr (''foo'', Obj [(''desc'', Str ''"line one\<newline>line two"\<newline>    note "a\<newline>b"'')])
   \<and> orchestrate [''foo {'', ''    desc "line one'', ''line two"'', ''}'']
   = Inr (''foo'', Obj [(''desc'', Str ''"line one\<newline>line two"'')])\<close>
  by code_simp

subsection \<open>C5: a quoted string that never closes\<close>

text \<open>
  C5. A multi-line string with no closing line raises the unclosed-quote error. In the
  code the scan starts at the opening line itself, so \<open>c\<close> is always assigned and the
  \<open>raise\<close> is never reached: the opening line becomes a property and the parse goes on.
\<close>

theorem C5_unclosed_quote_not_raised:
  \<open>orchestrate [''foo {'', ''    desc "abc'', ''    x y'', ''}'']
   = Inr (''foo'', Obj [(''desc'', Str ''"abc''), (''x'', Str ''y'')])\<close>
  by code_simp

subsection \<open>C6: a missing closing brace\<close>

text \<open>
  C6. When the root grouper runs past the end of the input, the error is the
  \<open>IndexError\<close> of the list read, and its message does not name the header; the nested
  scan of \<open>orchestrate\<close>, in the second file below, does name its line.
\<close>

theorem C6_root_grouper_index_error:
  "parse_files init_parser [(''bigip.conf'', ''ltm pool p {\<newline>    members {\<newline>    }'')]
   = Inl (WrappedError (error_prefix @ ''list index out of range''))
   \<and> \<not> contains (error_prefix @ ''list index out of range'') ''ltm pool p''
   \<and> parse_files init_parser
       [(''bigip.conf'', ''ltm pool p {\<newline>    members {\<newline>        a:80\<newline>}\<newline>}'')]
     = Inl (WrappedError (error_prefix @ missing_brace_message ''    members {''))"
  by code_simp

subsection \<open>C7: one wrapped error or a whole document\<close>

text \<open>
  C7. For every files mapping and every state of the parser object, \<open>parse_files\<close> returns
  the document that the loop over all files has built, or raises one error whose message
  is the fixed prefix followed by the message of the error that ended the loop; and if any
  file that is not skipped fails, alone, in preprocessing, grouping or object building, the
  result is such an error and no document.
\<close>

theorem C7_one_wrapped_error:
  "((\<exists>data. parse_loop self [] files = Inr data \<and> parse_files self files = Inr data)
     \<or> (\<exists>e. parse_loop self [] files = Inl e
            \<and> parse_files self files = Inl (WrappedError (error_prefix @ error_message e))))
   \<and> ((key, content) \<in> set files \<and> \<not> excluded key \<and> parse_file init_parser content = Inl e'
        \<longrightarrow> (\<exists>m. parse_files self files = Inl (WrappedError (error_prefix @ m))))"
proof (cases "parse_loop self [] files")
  case (Inl e)
  then show ?thesis by (auto simp: parse_files_def)
next
  case (Inr data)
  then show ?thesis using parse_loop_all_parsed[OF Inr, of key content]
    by (auto simp: parse_files_def)
qed

theorem C7_one_wrapped_error_witness:
  "(''b.conf'', ''ltm pool p {\<newline>    members {'')
     \<in> set [(''a.conf'', ''ltm node n { }''), (''b.conf'', ''ltm pool p {\<newline>    members {'')]
   \<and> \<not> excluded ''b.conf''
   \<and> parse_file init_parser ''ltm pool p {\<newline>    members {'' = Inl IndexError
   \<and> (\<exists>m. parse_files init_parser
              [(''a.conf'', ''ltm node n { }''), (''b.conf'', ''ltm pool p {\<newline>    members {'')]
            = Inl (WrappedError (error_prefix @ m)))"
proof -
  have m: "(''b.conf'', ''ltm pool p {\<newline>    members {'')
     \<in> set [(''a.conf'', ''ltm node n { }''), (''b.conf'', ''ltm pool p {\<newline>    members {'')]"
    by simp
  have x: "\<not> excluded ''b.conf''" by code_simp
  have f: "parse_file init_parser ''ltm pool p {\<newline>    members {'' = Inl IndexError"
    by code_simp
  show ?thesis
    using m x f
      C7_one_wrapped_error[of init_parser
        "[(''a.conf'', ''ltm node n { }''), (''b.conf'', ''ltm pool p {\<newline>    members {'')]"
        "''b.conf''" "''ltm pool p {\<newline>    members {''" IndexError]
    by blast
qed

subsection \<open>C8: pseudo-arrays\<close>

text \<open>
  C8, as stated: the line \<open>foo { a b c }\<close> gives the key \<open>foo\<close> with the tokens \<open>a\<close>,
  \<open>b\<close>, \<open>c\<close> also as a root-level line. There it is a group of one line, for which
  \<open>orchestrate\<close> returns the empty object under the whole line as its title.
\<close>

theorem C8_counterexample:
  "parse_files init_parser [(''bigip.conf'', ''foo { a b c }'')]
     = Inr [(''foo { a b c }'', Obj [])]
   \<and> orchestrate [''foo { a b c }''] \<noteq> Inr (''foo'', Tokens [''a'', ''b'', ''c''])"
  by code_simp

text \<open>
  C8, amended: as a body line of an object, \<open>    foo { a b c }\<close> at any place of the body
  stores the tokens \<open>a\<close>, \<open>b\<close>, \<open>c\<close> under the key \<open>foo\<close> and the loop goes on with the
  next line; as a root-level line it gives the empty object under the key
  \<open>foo { a b c }\<close>.
\<close>

theorem C8_pseudo_array:
  "(i < length arr \<and> arr ! i = ''    foo { a b c }'' \<longrightarrow>
      walk key arr i c obj
      = walk key arr (i + 1) c (dict_set ''foo'' (Tokens [''a'', ''b'', ''c'']) obj))
   \<and> orchestrate [''foo { a b c }''] = Inr (''foo { a b c }'', Obj [])"
proof (intro conjI impI)
  assume a: "i < length arr \<and> arr ! i = ''    foo { a b c }''"
  show "walk key arr i c obj
        = walk key arr (i + 1) c (dict_set ''foo'' (Tokens [''a'', ''b'', ''c'']) obj)"
    by (subst walk.simps) (simp only: a pseudo_array_line if_True if_False simp_thms sum.case)
next
  show "orchestrate [''foo { a b c }''] = Inr (''foo { a b c }'', Obj [])"
    by code_simp
qed

theorem C8_pseudo_array_witness:
  "(0 < length [''    foo { a b c }''] \<and> [''    foo { a b c }''] ! 0 = ''    foo { a b c }'')
   \<and> walk ''obj'' [''    foo { a b c }''] 0 None []
       = walk ''obj'' [''    foo { a b c }''] (0 + 1) None (dict_set ''foo'' (Tokens [''a'', ''b'', ''c'']) [])
   \<and> orchestrate [''obj {'', ''    foo { a b c }'', ''}'']
       = Inr (''obj'', Obj [(''foo'', Tokens [''a'', ''b'', ''c''])])"
proof -
  have o: "orchestrate [''obj {'', ''    foo { a b c }'', ''}'']
       = Inr (''obj'', Obj [(''foo'', Tokens [''a'', ''b'', ''c''])])"
    by code_simp
  show ?thesis
    using C8_pseudo_array[of 0 "[''    foo { a b c }'']" "''obj''" None "[]"] o by simp
qed


subsection \<open>C9: the later file wins\<close>

text \<open>
  C9. When \<open>parse_files\<close> returns a document, a file that is not skipped defines the root
  object \<open>k\<close> with value \<open>v\<close>, and no file after it in the iteration order defines \<open>k\<close>,
  then the document maps \<open>k\<close> to \<open>v\<close>, whatever the files before it define: of two files
  with a root object of the same name, the later one gives the value.
\<close>

theorem C9_last_write_wins:
  assumes "parse_files self (pre @ (name, content) # post) = Inr data"
    and "\<not> excluded name"
    and "parse_file init_parser content = Inr (s, d)"
    and "dict_get d k = Some v"
    and "list_all (defines_not k) post"
  shows "dict_get data k = Some v"
proof -
  have loop: "parse_loop self [] (pre @ (name, content) # post) = Inr data"
    using assms(1) by (simp add: parse_files_def split: sum.splits)
  then obtain d0 where d0: "parse_loop self [] pre = Inr d0"
    and rest: "parse_loop init_parser d0 ((name, content) # post) = Inr data"
    by (auto simp: parse_loop_append split: sum.splits)
  have "parse_loop s (dict_update d0 d) post = Inr data"
    using rest assms(2,3) by simp
  then have "dict_get data k = dict_get (dict_update d0 d) k"
    using assms(5) by (rule parse_loop_keeps)
  then show ?thesis
    using dict_get_update[OF parse_file_distinct[OF assms(3)], of d0 k] assms(4) by simp
qed

theorem C9_last_write_wins_witness:
  "parse_files init_parser
     ([(''a.conf'', ''ltm node n {\<newline>    address 1.1.1.1\<newline>}'')]
      @ (''b.conf'', ''ltm node n {\<newline>    address 2.2.2.2\<newline>}'') # [(''c.conf'', ''ltm pool p { }'')])
     = Inr [(''ltm node n'', Obj [(''address'', Str ''2.2.2.2'')]), (''ltm pool p'', Obj [])]
   \<and> \<not> excluded ''b.conf''
   \<and> parse_file init_parser ''ltm node n {\<newline>    address 2.2.2.2\<newline>}''
       = Inr (init_parser, [(''ltm node n'', Obj [(''address'', Str ''2.2.2.2'')])])
   \<and> dict_get [(''ltm node n'', Obj [(''address'', Str ''2.2.2.2'')])] ''ltm node n''
       = Some (Obj [(''address'', Str ''2.2.2.2'')])
   \<and> list_all (defines_not ''ltm node n'') [(''c.conf'', ''ltm pool p { }'')]
   \<and> dict_get [(''ltm node n'', Obj [(''address'', Str ''2.2.2.2'')]), (''ltm pool p'', Obj [])]
         ''ltm node n''
       = Some (Obj [(''address'', Str ''2.2.2.2'')])"
proof -
  have a: "parse_files init_parser
     ([(''a.conf'', ''ltm node n {\<newline>    address 1.1.1.1\<newline>}'')]
      @ (''b.conf'', ''ltm node n {\<newline>    address 2.2.2.2\<newline>}'') # [(''c.conf'', ''ltm pool p { }'')])
     = Inr [(''ltm node n'', Obj [(''address'', Str ''2.2.2.2'')]), (''ltm pool p'', Obj [])]"
    by code_simp
  have b: "\<not> excluded ''b.conf''" by code_simp
  have c: "parse_file init_parser ''ltm node n {\<newline>    address 2.2.2.2\<newline>}''
       = Inr (init_parser, [(''ltm node n'', Obj [(''address'', Str ''2.2.2.2'')])])"
    by code_simp
  have d: "dict_get [(''ltm node n'', Obj [(''address'', Str ''2.2.2.2'')])] ''ltm node n''
       = Some (Obj [(''address'', Str ''2.2.2.2'')])"
    by simp
  have e: "list_all (defines_not ''ltm node n'') [(''c.conf'', ''ltm pool p { }'')]"
    by code_simp
  show ?thesis
    using a b c d e C9_last_write_wins[OF a b c d e] by blast
qed

subsection \<open>C10: no topology state between files\<close>

text \<open>
  C10. The three fields of the topology accumulator are assigned empty, zero and false
  before the lines of a file are read, so the filtered lines of a file, its root objects
  and the whole document are the same from whatever state of the parser object the work
  starts: nothing that earlier files left in the fields reaches a later file.
\<close>

theorem C10_no_state_between_files:
  "preprocess self content = preprocess self' content
   \<and> parse_file self content = parse_file self' content
   \<and> parse_files self files = parse_files self' files"
proof -
  have pre: "preprocess self content = preprocess init_parser content" for self
    by (cases self) (simp add: preprocess_def init_parser_def)
  show ?thesis
    using pre[of self] pre[of self'] parse_file_reset[of self content] parse_file_reset[of self' content]
          parse_loop_reset[of self "[]" files] parse_loop_reset[of self' "[]" files]
    by (simp add: parse_files_def)
qed

end
